theory Spec2Isabelle
  imports Main
begin

section \<open>Python values and errors\<close>

text \<open>
  The library is dynamically typed: the setters of \<^verbatim>\<open>odata_query.py\<close> inspect
  \<^verbatim>\<open>type(value)\<close>, and \<^verbatim>\<open>client.py\<close> handles whatever JSON the server sends.
  \<open>pyval\<close> is the universe of Python values the embedded functions can be handed:
  \<^verbatim>\<open>None\<close>, booleans, (unbounded) integers, strings, bytes, lists, dicts with string
  keys (the shape of decoded JSON objects; keys are distinct and looked up with
  \<open>map_of\<close>), the members of the two enums, and \<^verbatim>\<open>Constrain\<close> and \<^verbatim>\<open>Filter\<close> objects.
  Strings are byte strings here (\<open>char list\<close>); floating-point numbers are left out.
\<close>

datatype LogicalOperator = EQ | NE | LT | GT | LE | GE | STARTS_WITH | ENDS_WITH

datatype LogicalConnector = AND | OR

text \<open>
  \<^verbatim>\<open>Constrain.__init__\<close> stores its three arguments as they come, so the fields of a
  \<^verbatim>\<open>Constrain\<close> are arbitrary Python values. The fields of a \<^verbatim>\<open>Filter\<close> start as
  \<^verbatim>\<open>None\<close> and are written only by its two setters, which admit a list of
  \<^verbatim>\<open>Constrain\<close> objects and a \<^verbatim>\<open>LogicalConnector\<close>.
\<close>

datatype pyval =
    PNone
  | PBool bool
  | PInt int
  | PStr string
  | PBytes string
  | PList "pyval list"
  | PDict "(string \<times> pyval) list"
  | POperator LogicalOperator
  | PConnector LogicalConnector
  | PConstrain Constrain
  | PFilter Filter
and Constrain =
    Constrain (attribute: pyval) (logical_operator: pyval) (value_c: pyval)
and Filter =
    Filter (constrains_f: "Constrain list option") (logical_connector: "LogicalConnector option")

text \<open>
  Exceptions are values. \<open>ValueError\<close>, \<open>Exception\<close> and \<open>GraphClientException\<close>
  carry the message the source gives them (\<open>GraphClientException_of\<close> the exception it
  wraps); \<open>AttributeError\<close>, \<open>TypeError\<close> and \<open>KeyError\<close> are raised by the interpreter
  itself (a missing attribute, an operation on the wrong type, a missing key).
  \<open>ClientError\<close> stands for whatever the HTTP library raises. \<open>ApiError c r h\<close> is the
  exception \<^verbatim>\<open>_request\<close> builds for an unexpected status: an instance of the class
  named \<open>c\<close>, made from the payload \<open>r\<close> and the response headers \<open>h\<close>.
  \<open>NotModelled\<close> marks the one place where this development does not follow
  Python: rendering, inside a constraint, a value whose text is a \<^verbatim>\<open>repr\<close> (lists,
  dicts, bytes, objects with a memory address, enum members).
\<close>

datatype py_error =
    ValueError string
  | AttributeError
  | TypeError
  | KeyError string
  | Exception string
  | ClientError string
  | ApiError string pyval "(string \<times> string) list"
  | GraphClientException string
  | GraphClientException_of py_error
  | NotModelled

section \<open>Strings\<close>

text \<open>\<^verbatim>\<open>str.lower()\<close> on ASCII text: the letters A to Z move to a to z.\<close>

definition lower_char :: "char \<Rightarrow> char" where
  "lower_char c =
     (let n = (of_char c :: nat) in if 65 \<le> n \<and> n \<le> 90 then char_of (n + 32) else c)"

definition lower :: "string \<Rightarrow> string" where
  "lower s = map lower_char s"

text \<open>\<^verbatim>\<open>sep.join(xs)\<close>.\<close>

fun join :: "string \<Rightarrow> string list \<Rightarrow> string" where
  "join sep [] = []"
| "join sep [x] = x"
| "join sep (x # y # ys) = x @ sep @ join sep (y # ys)"

text \<open>\<^verbatim>\<open>str(n)\<close> for an integer: decimal digits, with a minus sign when negative.\<close>

definition digit_char :: "nat \<Rightarrow> char" where
  "digit_char d = char_of (48 + d)"

function str_nat :: "nat \<Rightarrow> string" where
  "str_nat n = (if n < 10 then [digit_char n] else str_nat (n div 10) @ [digit_char (n mod 10)])"
  by pat_completeness auto
termination
  by (relation "measure (\<lambda>n. n)") auto

declare str_nat.simps [simp del]

definition str_int :: "int \<Rightarrow> string" where
  "str_int i = (if i < 0 then CHR ''-'' # str_nat (nat (- i)) else str_nat (nat i))"

text \<open>\<^verbatim>\<open>str(b)\<close> for a boolean.\<close>

definition str_bool :: "bool \<Rightarrow> string" where
  "str_bool b = (if b then ''True'' else ''False'')"

section \<open>Constraints and their templates\<close>

text \<open>
  Each member of \<^verbatim>\<open>LogicalOperator\<close> carries a format string with the two replacement
  fields \<^verbatim>\<open>{attribute}\<close> and \<^verbatim>\<open>{val}\<close>. A template is kept as the sequence of its literal
  pieces and fields, and \<^verbatim>\<open>str.format\<close> replaces each field by the text of its
  argument; the arguments themselves are not parsed again.
\<close>

datatype tpl_piece = Lit string | Field_attribute | Field_val

fun template :: "LogicalOperator \<Rightarrow> tpl_piece list" where
  "template EQ = [Field_attribute, Lit '' eq '', Field_val]"
| "template NE = [Field_attribute, Lit '' ne '', Field_val]"
| "template LT = [Field_attribute, Lit '' lt '', Field_val]"
| "template GT = [Field_attribute, Lit '' gt '', Field_val]"
| "template LE = [Field_attribute, Lit '' le '', Field_val]"
| "template GE = [Field_attribute, Lit '' ge '', Field_val]"
| "template STARTS_WITH = [Lit ''startsWith('', Field_attribute, Lit '', '', Field_val, Lit '')'']"
| "template ENDS_WITH = [Lit ''endsWith('', Field_attribute, Lit '', '', Field_val, Lit '')'']"

fun format_piece :: "string \<Rightarrow> string \<Rightarrow> tpl_piece \<Rightarrow> string" where
  "format_piece a v (Lit s) = s"
| "format_piece a v Field_attribute = a"
| "format_piece a v Field_val = v"

definition format_template :: "tpl_piece list \<Rightarrow> string \<Rightarrow> string \<Rightarrow> string" where
  "format_template t a v = concat (map (format_piece a v) t)"

text \<open>
  The text \<^verbatim>\<open>str.format\<close> puts in place of a field: the string itself, the decimal
  digits of an integer, \<^verbatim>\<open>True\<close>/\<^verbatim>\<open>False\<close>, \<^verbatim>\<open>None\<close>.
\<close>

fun py_format :: "pyval \<Rightarrow> py_error + string" where
  "py_format (PStr s) = Inr s"
| "py_format (PInt i) = Inr (str_int i)"
| "py_format (PBool b) = Inr (str_bool b)"
| "py_format PNone = Inr ''None''"
| "py_format _ = Inl NotModelled"

text \<open>
  \<^verbatim>\<open>Constrain.__init__\<close>: three assignments, no check.
\<close>

definition Constrain_init :: "pyval \<Rightarrow> pyval \<Rightarrow> pyval \<Rightarrow> py_error + Constrain" where
  "Constrain_init attribute' logical_operator' value' =
     Inr (Constrain attribute' logical_operator' value')"

text \<open>
  \<^verbatim>\<open>Constrain.__str__\<close>: \<^verbatim>\<open>self._logical_operator.template\<close> is read first, and only a
  \<^verbatim>\<open>LogicalOperator\<close> has that attribute.
\<close>

definition Constrain_str :: "Constrain \<Rightarrow> py_error + string" where
  "Constrain_str self =
     (case logical_operator self of
        POperator op \<Rightarrow>
          (case py_format (attribute self) of
             Inl e \<Rightarrow> Inl e
           | Inr a \<Rightarrow>
               (case py_format (value_c self) of
                  Inl e \<Rightarrow> Inl e
                | Inr v \<Rightarrow> Inr (format_template (template op) a v)))
      | _ \<Rightarrow> Inl AttributeError)"

section \<open>Filter\<close>

definition Filter_init :: "Filter" where
  "Filter_init = Filter None None"

text \<open>
  The elements of a list that are all \<^verbatim>\<open>Constrain\<close> objects, or \<open>None\<close> when one of
  them has another type (the loop of the \<^verbatim>\<open>constrains\<close> setter).
\<close>

fun all_constrains :: "pyval list \<Rightarrow> Constrain list option" where
  "all_constrains [] = Some []"
| "all_constrains (PConstrain c # vs) =
     (case all_constrains vs of None \<Rightarrow> None | Some cs \<Rightarrow> Some (c # cs))"
| "all_constrains (_ # vs) = None"

definition constrains_setter :: "Filter \<Rightarrow> pyval \<Rightarrow> py_error + Filter" where
  "constrains_setter self v =
     (case v of
        PList vs \<Rightarrow>
          (case all_constrains vs of
             None \<Rightarrow> Inl (ValueError ''all values must be constrains'')
           | Some cs \<Rightarrow> Inr (Filter (Some cs) (logical_connector self)))
      | _ \<Rightarrow> Inl (ValueError ''constrains must be list''))"

definition logical_connector_setter :: "Filter \<Rightarrow> pyval \<Rightarrow> py_error + Filter" where
  "logical_connector_setter self v =
     (case v of
        PConnector lc \<Rightarrow> Inr (Filter (constrains_f self) (Some lc))
      | _ \<Rightarrow> Inl (ValueError ''logical connector must be of type LogicalConnector''))"

text \<open>The \<^verbatim>\<open>name\<close> of an enum member.\<close>

fun LogicalConnector_name :: "LogicalConnector \<Rightarrow> string" where
  "LogicalConnector_name AND = ''AND''"
| "LogicalConnector_name OR = ''OR''"

section \<open>ODataQuery\<close>

text \<open>
  The five fields start as \<^verbatim>\<open>None\<close> and are written only by the setters, so each
  holds \<open>None\<close> or a value of the type its setter admits.
\<close>

record ODataQuery =
  count :: "bool option"
  expand :: "string option"
  filter_q :: "Filter option"
  select :: "string list option"
  top_q :: "int option"

definition ODataQuery_init :: "ODataQuery" where
  "ODataQuery_init =
     \<lparr>count = None, expand = None, filter_q = None, select = None, top_q = None\<rparr>"

definition count_setter :: "ODataQuery \<Rightarrow> pyval \<Rightarrow> py_error + ODataQuery" where
  "count_setter self v =
     (case v of
        PBool b \<Rightarrow> Inr (self\<lparr>count := Some b\<rparr>)
      | _ \<Rightarrow> Inl (ValueError ''count must be boolean''))"

definition expand_setter :: "ODataQuery \<Rightarrow> pyval \<Rightarrow> py_error + ODataQuery" where
  "expand_setter self v =
     (case v of
        PStr s \<Rightarrow> Inr (self\<lparr>expand := Some s\<rparr>)
      | _ \<Rightarrow> Inl (ValueError ''expand must be string''))"

definition filter_setter :: "ODataQuery \<Rightarrow> pyval \<Rightarrow> py_error + ODataQuery" where
  "filter_setter self v =
     (case v of
        PFilter f \<Rightarrow> Inr (self\<lparr>filter_q := Some f\<rparr>)
      | _ \<Rightarrow> Inl (ValueError ''filter must of Filter type''))"

text \<open>
  The elements of a list that are all strings, or \<open>None\<close> when one of them has another
  type (the loop of the \<^verbatim>\<open>select\<close> setter).
\<close>

fun all_strs :: "pyval list \<Rightarrow> string list option" where
  "all_strs [] = Some []"
| "all_strs (PStr s # vs) =
     (case all_strs vs of None \<Rightarrow> None | Some ss \<Rightarrow> Some (s # ss))"
| "all_strs (_ # vs) = None"

definition select_setter :: "ODataQuery \<Rightarrow> pyval \<Rightarrow> py_error + ODataQuery" where
  "select_setter self v =
     (case v of
        PList vs \<Rightarrow>
          (case all_strs vs of
             None \<Rightarrow> Inl (ValueError ''all values should be strings'')
           | Some ss \<Rightarrow> Inr (self\<lparr>select := Some ss\<rparr>))
      | _ \<Rightarrow> Inl (ValueError ''select must be list of strings''))"

definition top_setter :: "ODataQuery \<Rightarrow> pyval \<Rightarrow> py_error + ODataQuery" where
  "top_setter self v =
     (case v of
        PInt i \<Rightarrow> Inr (self\<lparr>top_q := Some i\<rparr>)
      | _ \<Rightarrow> Inl (ValueError ''top must be integer''))"

text \<open>
  \<^verbatim>\<open>_build_filter\<close>. The loop carries \<open>res\<close>; the connector is read, and must be a
  \<^verbatim>\<open>LogicalConnector\<close>, only once \<open>res\<close> is a non-empty string.
\<close>

fun build_filter_loop :: "Filter \<Rightarrow> Constrain list \<Rightarrow> string \<Rightarrow> py_error + string" where
  "build_filter_loop f [] res = Inr res"
| "build_filter_loop f (constrain # rest) res =
     (case (if res \<noteq> []
            then (case logical_connector f of
                    None \<Rightarrow> Inl AttributeError
                  | Some lc \<Rightarrow> Inr (res @ '' '' @ lower (LogicalConnector_name lc) @ '' ''))
            else Inr res) of
        Inl e \<Rightarrow> Inl e
      | Inr res' \<Rightarrow>
          (case Constrain_str constrain of
             Inl e \<Rightarrow> Inl e
           | Inr s \<Rightarrow> build_filter_loop f rest (res' @ s)))"

definition build_filter :: "ODataQuery \<Rightarrow> py_error + string" where
  "build_filter self =
     (case filter_q self of
        None \<Rightarrow> Inl AttributeError
      | Some f \<Rightarrow>
          (case constrains_f f of
             None \<Rightarrow> Inl TypeError
           | Some cs \<Rightarrow> build_filter_loop f cs []))"

text \<open>
  Truth values, as \<^verbatim>\<open>if x\<close> and \<^verbatim>\<open>not x\<close> take them: \<^verbatim>\<open>None\<close>, \<^verbatim>\<open>False\<close>, \<^verbatim>\<open>0\<close>, the
  empty string and the empty list are false; a \<^verbatim>\<open>Filter\<close> object (the class defines
  neither \<^verbatim>\<open>__bool__\<close> nor \<^verbatim>\<open>__len__\<close>) is always true.
\<close>

fun truthy_opt :: "('a \<Rightarrow> bool) \<Rightarrow> 'a option \<Rightarrow> bool" where
  "truthy_opt t None = False"
| "truthy_opt t (Some x) = t x"

definition count_truthy :: "ODataQuery \<Rightarrow> bool" where
  "count_truthy self = truthy_opt (\<lambda>b. b) (count self)"

definition expand_truthy :: "ODataQuery \<Rightarrow> bool" where
  "expand_truthy self = truthy_opt (\<lambda>s. s \<noteq> []) (expand self)"

definition filter_truthy :: "ODataQuery \<Rightarrow> bool" where
  "filter_truthy self = truthy_opt (\<lambda>f. True) (filter_q self)"

definition select_truthy :: "ODataQuery \<Rightarrow> bool" where
  "select_truthy self = truthy_opt (\<lambda>ss. ss \<noteq> []) (select self)"

definition top_truthy :: "ODataQuery \<Rightarrow> bool" where
  "top_truthy self = truthy_opt (\<lambda>i. i \<noteq> 0) (top_q self)"

text \<open>
  \<^verbatim>\<open>self.filter and self.filter.constrains\<close>: a filter is there and its list of
  constraints is neither \<^verbatim>\<open>None\<close> nor empty.
\<close>

definition filter_constrains_truthy :: "ODataQuery \<Rightarrow> bool" where
  "filter_constrains_truthy self =
     truthy_opt (\<lambda>f. truthy_opt (\<lambda>cs. cs \<noteq> []) (constrains_f f)) (filter_q self)"

text \<open>
  \<^verbatim>\<open>ODataQuery.__str__\<close>. \<open>res\<close> grows by one entry per clause, in the order of the
  source; the call of \<^verbatim>\<open>_build_filter\<close> is the only step that can raise.
\<close>

definition ODataQuery_str :: "ODataQuery \<Rightarrow> py_error + string" where
  "ODataQuery_str self =
     (if \<not> count_truthy self \<and> \<not> expand_truthy self \<and> \<not> filter_truthy self
         \<and> \<not> select_truthy self \<and> \<not> top_truthy self
      then Inr ''EMPTY OPEN DATA QUERY''
      else
        let res = [];
            res = (case count self of
                     Some b \<Rightarrow> if b then res @ [''$count='' @ lower (str_bool b)] else res
                   | None \<Rightarrow> res);
            res = (case expand self of
                     Some s \<Rightarrow> if s \<noteq> [] then res @ [''$expand='' @ lower s] else res
                   | None \<Rightarrow> res)
        in case (if filter_constrains_truthy self
                 then (case build_filter self of
                         Inl e \<Rightarrow> Inl e
                       | Inr s \<Rightarrow> Inr (res @ [''$filter='' @ s]))
                 else Inr res) of
             Inl e \<Rightarrow> Inl e
           | Inr res \<Rightarrow>
               let res = (case select self of
                            Some ss \<Rightarrow>
                              if ss \<noteq> [] then res @ [''$select='' @ join '','' ss] else res
                          | None \<Rightarrow> res);
                   res = (case top_q self of
                            Some i \<Rightarrow> if i \<noteq> 0 then res @ [''$top='' @ str_int i] else res
                          | None \<Rightarrow> res)
               in Inr (''?'' @ join ''&'' res))"

section \<open>The client: values, headers, requests\<close>

text \<open>Truth values of arbitrary Python values (the members of both enums are non-zero).\<close>

fun truthy :: "pyval \<Rightarrow> bool" where
  "truthy PNone = False"
| "truthy (PBool b) = b"
| "truthy (PInt i) = (i \<noteq> 0)"
| "truthy (PStr s) = (s \<noteq> [])"
| "truthy (PBytes s) = (s \<noteq> [])"
| "truthy (PList vs) = (vs \<noteq> [])"
| "truthy (PDict kvs) = (kvs \<noteq> [])"
| "truthy (POperator _) = True"
| "truthy (PConnector _) = True"
| "truthy (PConstrain _) = True"
| "truthy (PFilter _) = True"

text \<open>\<^verbatim>\<open>d[k]\<close> with a string key: only a dict can answer, and only for a key it has.\<close>

fun py_getitem :: "pyval \<Rightarrow> string \<Rightarrow> py_error + pyval" where
  "py_getitem (PDict kvs) k = (case map_of kvs k of None \<Rightarrow> Inl (KeyError k) | Some v \<Rightarrow> Inr v)"
| "py_getitem _ k = Inl TypeError"

text \<open>\<^verbatim>\<open>d.get(k)\<close>: \<^verbatim>\<open>None\<close> for a missing key; no other type of value has the method.\<close>

fun py_get :: "pyval \<Rightarrow> string \<Rightarrow> py_error + pyval" where
  "py_get (PDict kvs) k = Inr (case map_of kvs k of None \<Rightarrow> PNone | Some v \<Rightarrow> v)"
| "py_get _ k = Inl AttributeError"

text \<open>
  \<^verbatim>\<open>for x in v\<close>: the elements of a list, the characters of a string, the bytes of a
  bytes object, the keys of a dict; nothing else here can be iterated.
\<close>

fun py_iter :: "pyval \<Rightarrow> py_error + pyval list" where
  "py_iter (PList vs) = Inr vs"
| "py_iter (PStr s) = Inr (map (\<lambda>c. PStr [c]) s)"
| "py_iter (PBytes s) = Inr (map (\<lambda>c. PInt (of_char c)) s)"
| "py_iter (PDict kvs) = Inr (map (\<lambda>kv. PStr (fst kv)) kvs)"
| "py_iter _ = Inl TypeError"

text \<open>\<^verbatim>\<open>s.startswith(p)\<close> and \<^verbatim>\<open>p in s\<close> on strings.\<close>

definition startswith :: "string \<Rightarrow> string \<Rightarrow> bool" where
  "startswith s p = (take (length p) s = p)"

fun contains :: "string \<Rightarrow> string \<Rightarrow> bool" where
  "contains p [] = (p = [])"
| "contains p (c # s) = (startswith (c # s) p \<or> contains p s)"

declare contains.simps [simp del]

text \<open>
  Request headers are a dict from names to values: a list of pairs with distinct keys,
  in the order of insertion. \<^verbatim>\<open>d[k] = v\<close> replaces the value of a key that is there
  and appends a new key; \<^verbatim>\<open>d.update(e)\<close> does so for each entry of \<open>e\<close> in turn.
  Response headers are the HTTP library's multidict, whose lookup ignores the case of
  the name and raises \<^verbatim>\<open>KeyError\<close> when no entry has it.
\<close>

type_synonym headers = "(string \<times> string) list"

fun dict_setitem :: "headers \<Rightarrow> string \<Rightarrow> string \<Rightarrow> headers" where
  "dict_setitem [] k v = [(k, v)]"
| "dict_setitem ((k', v') # d) k v =
     (if k' = k then (k, v) # d else (k', v') # dict_setitem d k v)"

fun dict_update :: "headers \<Rightarrow> headers \<Rightarrow> headers" where
  "dict_update d [] = d"
| "dict_update d ((k, v) # e) = dict_update (dict_setitem d k v) e"

fun header_getitem :: "(string \<times> string) list \<Rightarrow> string \<Rightarrow> py_error + string" where
  "header_getitem [] k = Inl (KeyError k)"
| "header_getitem ((k', v) # hs) k =
     (if lower k' = lower k then Inr v else header_getitem hs k)"

record http_request =
  req_method :: string
  req_url :: string
  req_headers :: "headers option"
  req_data :: pyval

text \<open>
  What the session hands back for a request: the status, the headers, and what
  \<^verbatim>\<open>await resp.json()\<close> and \<^verbatim>\<open>await resp.read()\<close> give (either may raise).
\<close>

record response =
  resp_status :: int
  resp_headers :: "(string \<times> string) list"
  resp_json :: "py_error + pyval"
  resp_read :: "py_error + string"

text \<open>
  The surroundings of the client. \<^verbatim>\<open>status2exception\<close> and \<^verbatim>\<open>UnknownError\<close> come from
  \<^verbatim>\<open>msgraph_async.common.exceptions\<close>, which is not among the sources: the table (status
  code to exception class) and the fallback class are parameters. \<open>transport\<close> is the
  remote side as the session shows it: the response to a request, or the exception
  raised instead.
\<close>

record env =
  status2exception :: "int \<rightharpoonup> string"
  UnknownError :: string
  transport :: "http_request \<Rightarrow> py_error + response"

text \<open>The members of the standard library's \<^verbatim>\<open>HTTPStatus\<close> the client names.\<close>

definition HTTPStatus_OK :: int where
  "HTTPStatus_OK = 200"

definition HTTPStatus_CREATED :: int where
  "HTTPStatus_CREATED = 201"

definition HTTPStatus_NO_CONTENT :: int where
  "HTTPStatus_NO_CONTENT = 204"

text \<open>
  \<^verbatim>\<open>GraphClient._request\<close>. The last argument and the second component of the result
  are the requests sent so far, in order.
\<close>

definition request ::
  "env \<Rightarrow> string \<Rightarrow> string \<Rightarrow> headers option \<Rightarrow> pyval \<Rightarrow> int list option
   \<Rightarrow> http_request list \<Rightarrow> (py_error + pyval \<times> int) \<times> http_request list" where
  "request env method url headers data expected_statuses sent =
     (let expected = (case expected_statuses of
                        None \<Rightarrow> [HTTPStatus_OK, HTTPStatus_NO_CONTENT, HTTPStatus_CREATED]
                      | Some es \<Rightarrow>
                          if es = []
                          then [HTTPStatus_OK, HTTPStatus_NO_CONTENT, HTTPStatus_CREATED]
                          else es);
          sent' = sent @ [\<lparr>req_method = method, req_url = url, req_headers = headers,
                           req_data = data\<rparr>]
      in case transport env \<lparr>req_method = method, req_url = url, req_headers = headers,
                              req_data = data\<rparr> of
           Inl e \<Rightarrow> (Inl e, sent')
         | Inr resp \<Rightarrow>
             (case header_getitem (resp_headers resp) ''Content-Type'' of
                Inl e \<Rightarrow> (Inl e, sent')
              | Inr ct \<Rightarrow>
                  (case (if contains ''application/json'' ct then resp_json resp
                         else map_sum id PBytes (resp_read resp)) of
                     Inl e \<Rightarrow> (Inl e, sent')
                   | Inr r \<Rightarrow>
                       if resp_status resp \<in> set expected then (Inr (r, resp_status resp), sent')
                       else (Inl (ApiError
                                    (case status2exception env (resp_status resp) of
                                       None \<Rightarrow> UnknownError env
                                     | Some c \<Rightarrow> c)
                                    r (resp_headers resp)), sent'))))"

section \<open>The client: token management\<close>

text \<open>
  The state of a \<^verbatim>\<open>GraphClient\<close>. The session is the \<open>transport\<close> of the surroundings;
  of the scheduler the model keeps the jobs added (the arguments of \<^verbatim>\<open>_refresh_token\<close>
  and the interval in seconds) and whether it was started. Log output is not kept.
\<close>

record GraphClient =
  token :: pyval
  managed :: bool
  token_refresh_interval_sec :: int
  scheduler_jobs :: "(string \<times> string \<times> string \<times> int) list"
  scheduler_running :: bool
  enable_logging :: bool

definition GraphClient_init :: "bool \<Rightarrow> GraphClient" where
  "GraphClient_init logging =
     \<lparr>token = PNone, managed = False, token_refresh_interval_sec = 3300,
      scheduler_jobs = [], scheduler_running = False, enable_logging = logging\<rparr>"

text \<open>The setter of \<^verbatim>\<open>token_refresh_interval_sec\<close>, for an integer value.\<close>

definition token_refresh_interval_sec_setter :: "GraphClient \<Rightarrow> int \<Rightarrow> py_error + GraphClient" where
  "token_refresh_interval_sec_setter self v =
     (if v < 60 \<or> v > 3600
      then Inl (ValueError ''refresh interval must be between 60 and 3600 seconds'')
      else Inr (self\<lparr>token_refresh_interval_sec := v\<rparr>))"

definition acquire_token ::
  "env \<Rightarrow> string \<Rightarrow> string \<Rightarrow> string \<Rightarrow> http_request list
   \<Rightarrow> (py_error + pyval \<times> int) \<times> http_request list" where
  "acquire_token env app_id app_secret tenant_id sent =
     (let req_body = PDict [(''grant_type'', PStr ''client_credentials''),
                            (''scope'', PStr ''https://graph.microsoft.com/.default''),
                            (''client_id'', PStr app_id),
                            (''client_secret'', PStr app_secret)];
          url = ''https://login.microsoftonline.com/'' @ tenant_id @ ''/oauth2/v2.0/token''
      in request env ''POST'' url None req_body None sent)"

text \<open>\<^verbatim>\<open>_refresh_token\<close>: the client as it is afterwards comes with the result.\<close>

definition refresh_token ::
  "env \<Rightarrow> GraphClient \<Rightarrow> string \<Rightarrow> string \<Rightarrow> string \<Rightarrow> http_request list
   \<Rightarrow> (py_error + unit) \<times> GraphClient \<times> http_request list" where
  "refresh_token env self app_id app_secret tenant_id sent =
     (case acquire_token env app_id app_secret tenant_id sent of
        (Inl e, sent') \<Rightarrow> (Inl e, self, sent')
      | (Inr (content, status_code), sent') \<Rightarrow>
          (case py_getitem content ''access_token'' of
             Inl e \<Rightarrow> (Inl e, self, sent')
           | Inr t \<Rightarrow> (Inr (), self\<lparr>token := t\<rparr>, sent')))"

text \<open>
  \<^verbatim>\<open>manage_token\<close>. Whatever \<^verbatim>\<open>_refresh_token\<close> raises is caught and wrapped; adding the
  job and starting the scheduler are taken to succeed.
\<close>

definition manage_token ::
  "env \<Rightarrow> GraphClient \<Rightarrow> string \<Rightarrow> string \<Rightarrow> string \<Rightarrow> http_request list
   \<Rightarrow> (py_error + unit) \<times> GraphClient \<times> http_request list" where
  "manage_token env self app_id app_secret tenant_id sent =
     (if managed self then (Inl (GraphClientException ''Token is already managed''), self, sent)
      else
        (case refresh_token env self app_id app_secret tenant_id sent of
           (Inl e, self', sent') \<Rightarrow> (Inl (GraphClientException_of e), self', sent')
         | (Inr u, self', sent') \<Rightarrow>
             (Inr (),
              self'\<lparr>scheduler_jobs := scheduler_jobs self'
                        @ [(app_id, app_secret, tenant_id, token_refresh_interval_sec self')],
                     scheduler_running := True,
                     managed := True\<rparr>,
              sent')))"

section \<open>The client: authorized operations\<close>

text \<open>
  \<^verbatim>\<open>_build_auth_header\<close>. A token that is not a string has no \<^verbatim>\<open>lower\<close> method, and the
  \<^verbatim>\<open>lower\<close> of a bytes object cannot be asked whether it starts with a string.
\<close>

fun build_auth_header :: "pyval \<Rightarrow> py_error + headers" where
  "build_auth_header (PStr t) =
     Inr (if startswith (lower t) ''bearer'' then [(''authorization'', t)]
          else [(''authorization'', ''bearer '' @ t)])"
| "build_auth_header (PBytes t) = Inl TypeError"
| "build_auth_header _ = Inl AttributeError"

text \<open>
  The keyword arguments the decorator and the operations read: \<^verbatim>\<open>token\<close> (\<^verbatim>\<open>None\<close> when
  not given), \<^verbatim>\<open>extra_headers\<close>, \<^verbatim>\<open>expected_statuses\<close>, and \<^verbatim>\<open>_req_headers\<close>, which the
  decorator writes.
\<close>

record kwargs =
  kw_token :: pyval
  kw_extra_headers :: "headers option"
  kw_expected_statuses :: "int list option"
  kw_req_headers :: "headers option"

text \<open>
  The decorator \<^verbatim>\<open>authorized\<close>, applied to an operation \<open>func\<close> that runs in a world
  \<open>'w\<close> (for the operations of the client, the requests sent).
\<close>

definition authorized ::
  "(GraphClient \<Rightarrow> kwargs \<Rightarrow> 'w \<Rightarrow> (py_error + 'a) \<times> 'w)
   \<Rightarrow> GraphClient \<Rightarrow> kwargs \<Rightarrow> 'w \<Rightarrow> (py_error + 'a) \<times> 'w" where
  "authorized func client kw w =
     (if \<not> truthy (token client) \<and> \<not> truthy (kw_token kw)
      then (Inl (Exception ''Token is not managed so you must explicitly provide it''), w)
      else
        (case build_auth_header (if truthy (kw_token kw) then kw_token kw else token client) of
           Inl e \<Rightarrow> (Inl e, w)
         | Inr h \<Rightarrow>
             let h = dict_setitem h ''Content-type'' ''application/json'';
                 h = (case kw_extra_headers kw of
                        None \<Rightarrow> h
                      | Some extra \<Rightarrow> if extra = [] then h else dict_update h extra)
             in func client (kw\<lparr>kw_req_headers := Some h\<rparr>) w))"

text \<open>\<^verbatim>\<open>list_more_users\<close>, one of the decorated operations.\<close>

definition list_more_users ::
  "env \<Rightarrow> string \<Rightarrow> GraphClient \<Rightarrow> kwargs \<Rightarrow> http_request list
   \<Rightarrow> (py_error + pyval \<times> int) \<times> http_request list" where
  "list_more_users env next_url =
     authorized (\<lambda>self kw sent.
       request env ''GET'' next_url (kw_req_headers kw) PNone (kw_expected_statuses kw) sent)"

section \<open>The client: paginated sequences\<close>

text \<open>
  \<^verbatim>\<open>list_all_users\<close> and \<^verbatim>\<open>list_all_user_mails\<close> are generators. A run of one is the
  sequence of what it does, in order: it asks for the first page, asks for a further
  page by its URL, or hands an item to the consumer; the run ends when the generator
  is exhausted or raises. The two page fetchers are the client's own operations
  (\<^verbatim>\<open>list_users_bulk\<close> and \<^verbatim>\<open>list_more_users\<close>, or their counterparts for mails); here
  they are given by what they return. The token check of the decorator (see
  \<open>authorized\<close> above) comes before the generator is made and is not repeated here.
  \<^verbatim>\<open>NEXT_KEY\<close> is a constant of \<^verbatim>\<open>msgraph_async.common.constants\<close>, which is not among
  the sources: it is a parameter.
\<close>

datatype gen_event = Fetch_bulk | Fetch_more pyval | Yield pyval

text \<open>
  The \<^verbatim>\<open>while next_url\<close> loop, shared by the two generators. A server that never stops
  handing out continuation URLs keeps it running for ever: the result is then \<open>None\<close>.
\<close>

partial_function (option) while_next_url ::
  "(pyval \<Rightarrow> py_error + pyval \<times> int) \<Rightarrow> string \<Rightarrow> pyval \<Rightarrow> gen_event list
   \<Rightarrow> (gen_event list \<times> py_error option) option" where
  "while_next_url list_more NEXT_KEY next_url run =
     (if \<not> truthy next_url then Some (run, None)
      else
        (case list_more next_url of
           Inl e \<Rightarrow> Some (run @ [Fetch_more next_url], Some e)
         | Inr (res, status) \<Rightarrow>
             (case py_get res NEXT_KEY of
                Inl e \<Rightarrow> Some (run @ [Fetch_more next_url], Some e)
              | Inr next_url' \<Rightarrow>
                  (case py_getitem res ''value'' of
                     Inl e \<Rightarrow> Some (run @ [Fetch_more next_url], Some e)
                   | Inr v \<Rightarrow>
                       (case py_iter v of
                          Inl e \<Rightarrow> Some (run @ [Fetch_more next_url], Some e)
                        | Inr items \<Rightarrow>
                            while_next_url list_more NEXT_KEY next_url'
                              (run @ [Fetch_more next_url] @ map Yield items))))))"

definition list_all_users ::
  "(py_error + pyval \<times> int) \<Rightarrow> (pyval \<Rightarrow> py_error + pyval \<times> int) \<Rightarrow> string
   \<Rightarrow> (gen_event list \<times> py_error option) option" where
  "list_all_users list_users_bulk list_more NEXT_KEY =
     (case list_users_bulk of
        Inl e \<Rightarrow> Some ([Fetch_bulk], Some e)
      | Inr (res, status) \<Rightarrow>
          (case py_get res NEXT_KEY of
             Inl e \<Rightarrow> Some ([Fetch_bulk], Some e)
           | Inr next_url \<Rightarrow>
               (case py_getitem res ''value'' of
                  Inl e \<Rightarrow> Some ([Fetch_bulk], Some e)
                | Inr v \<Rightarrow>
                    (case py_iter v of
                       Inl e \<Rightarrow> Some ([Fetch_bulk], Some e)
                     | Inr items \<Rightarrow>
                         while_next_url list_more NEXT_KEY next_url
                           (Fetch_bulk # map Yield items)))))"

definition list_all_user_mails ::
  "('u \<Rightarrow> py_error + pyval \<times> int) \<Rightarrow> (pyval \<Rightarrow> py_error + pyval \<times> int) \<Rightarrow> string \<Rightarrow> 'u
   \<Rightarrow> (gen_event list \<times> py_error option) option" where
  "list_all_user_mails list_user_mails_bulk list_more NEXT_KEY user_id =
     (case list_user_mails_bulk user_id of
        Inl e \<Rightarrow> Some ([Fetch_bulk], Some e)
      | Inr (res, status) \<Rightarrow>
          (case py_get res NEXT_KEY of
             Inl e \<Rightarrow> Some ([Fetch_bulk], Some e)
           | Inr next_url \<Rightarrow>
               (case py_getitem res ''value'' of
                  Inl e \<Rightarrow> Some ([Fetch_bulk], Some e)
                | Inr v \<Rightarrow>
                    (case py_iter v of
                       Inl e \<Rightarrow> Some ([Fetch_bulk], Some e)
                     | Inr items \<Rightarrow>
                         while_next_url list_more NEXT_KEY next_url
                           (Fetch_bulk # map Yield items)))))"

section \<open>Vocabulary of the properties\<close>

subsection \<open>Query strings\<close>

text \<open>\<^verbatim>\<open>type(v)\<close>, which the setters compare with the type they admit.\<close>

datatype py_type = T_NoneType | T_bool | T_int | T_str | T_bytes | T_list | T_dict
  | T_LogicalOperator | T_LogicalConnector | T_Constrain | T_Filter

fun type_of :: "pyval \<Rightarrow> py_type" where
  "type_of PNone = T_NoneType"
| "type_of (PBool _) = T_bool"
| "type_of (PInt _) = T_int"
| "type_of (PStr _) = T_str"
| "type_of (PBytes _) = T_bytes"
| "type_of (PList _) = T_list"
| "type_of (PDict _) = T_dict"
| "type_of (POperator _) = T_LogicalOperator"
| "type_of (PConnector _) = T_LogicalConnector"
| "type_of (PConstrain _) = T_Constrain"
| "type_of (PFilter _) = T_Filter"

text \<open>
  The specification's rendering of a constraint, operator by operator, and of a
  connector; a constraint of the specification is an attribute, an operator and a
  value, the attribute and the value being strings.
\<close>

fun connector_word :: "LogicalConnector \<Rightarrow> string" where
  "connector_word AND = ''and''"
| "connector_word OR = ''or''"

fun rendered :: "LogicalOperator \<Rightarrow> string \<Rightarrow> string \<Rightarrow> string" where
  "rendered EQ a v = a @ '' eq '' @ v"
| "rendered NE a v = a @ '' ne '' @ v"
| "rendered LT a v = a @ '' lt '' @ v"
| "rendered GT a v = a @ '' gt '' @ v"
| "rendered LE a v = a @ '' le '' @ v"
| "rendered GE a v = a @ '' ge '' @ v"
| "rendered STARTS_WITH a v = ''startsWith('' @ a @ '', '' @ v @ '')''"
| "rendered ENDS_WITH a v = ''endsWith('' @ a @ '', '' @ v @ '')''"

definition typed_constrain :: "string \<times> LogicalOperator \<times> string \<Rightarrow> Constrain" where
  "typed_constrain t = (case t of (a, op, v) \<Rightarrow> Constrain (PStr a) (POperator op) (PStr v))"

definition rendered_t :: "string \<times> LogicalOperator \<times> string \<Rightarrow> string" where
  "rendered_t t = (case t of (a, op, v) \<Rightarrow> rendered op a v)"

text \<open>
  A query in which nothing counts as set: every field is \<^verbatim>\<open>None\<close> or, for the fields
  other than the filter, the false value of its type.
\<close>

definition nothing_set :: "ODataQuery \<Rightarrow> bool" where
  "nothing_set q \<longleftrightarrow>
     (count q = None \<or> count q = Some False) \<and> (expand q = None \<or> expand q = Some [])
     \<and> filter_q q = None \<and> (select q = None \<or> select q = Some [])
     \<and> (top_q q = None \<or> top_q q = Some 0)"

text \<open>
  The key=value pairs of a query, in the order count, expand, filter, select, top;
  \<open>fs\<close> is the rendering of the filter.
\<close>

definition query_pairs :: "ODataQuery \<Rightarrow> string \<Rightarrow> string list" where
  "query_pairs q fs =
     (if count q = Some True then [''$count=true''] else [])
     @ (case expand q of
          Some s \<Rightarrow> if s = [] then [] else [''$expand='' @ lower s]
        | None \<Rightarrow> [])
     @ (if filter_constrains_truthy q then [''$filter='' @ fs] else [])
     @ (case select q of
          Some ss \<Rightarrow> if ss = [] then [] else [''$select='' @ join '','' ss]
        | None \<Rightarrow> [])
     @ (case top_q q of
          Some i \<Rightarrow> if i = 0 then [] else [''$top='' @ str_int i]
        | None \<Rightarrow> [])"

subsection \<open>Requests\<close>

text \<open>
  Modelled from the spec: the table \<^verbatim>\<open>status2exception\<close> of
  \<^verbatim>\<open>msgraph_async.common.exceptions\<close>, which is not among the sources. Section 7 of the
  specification gives its entries by example: 401 unauthorized, 403 forbidden, 404
  not-found, 429 throttled, 5xx server-error; every other code is unmapped.
\<close>

definition status2exception_spec :: "int \<rightharpoonup> string" where
  "status2exception_spec c =
     (if c = 401 then Some ''unauthorized''
      else if c = 403 then Some ''forbidden''
      else if c = 404 then Some ''not-found''
      else if c = 429 then Some ''throttled''
      else if 500 \<le> c \<and> c \<le> 599 then Some ''server-error''
      else None)"

text \<open>
  The headers an authorized call is to send, name by name: what the caller supplied
  comes first, then the JSON content type and the bearer token.
\<close>

definition auth_headers :: "string \<Rightarrow> (string \<rightharpoonup> string) \<Rightarrow> (string \<rightharpoonup> string)" where
  "auth_headers t extra k =
     (case extra k of
        Some v \<Rightarrow> Some v
      | None \<Rightarrow>
          if k = ''Content-type'' then Some ''application/json''
          else if k = ''authorization''
          then Some (if startswith (lower t) ''bearer'' then t else ''bearer '' @ t)
          else None)"

subsection \<open>Pages\<close>

text \<open>
  A page is a dict whose \<^verbatim>\<open>value\<close> is a list of items; its continuation is what it
  holds under the continuation key, \<^verbatim>\<open>None\<close> when the key is absent.
\<close>

fun items_of :: "pyval \<Rightarrow> pyval list option" where
  "items_of (PDict kvs) =
     (case map_of kvs ''value'' of Some (PList items) \<Rightarrow> Some items | _ \<Rightarrow> None)"
| "items_of _ = None"

fun continuation_of :: "string \<Rightarrow> pyval \<Rightarrow> pyval" where
  "continuation_of K (PDict kvs) = (case map_of kvs K of None \<Rightarrow> PNone | Some u \<Rightarrow> u)"
| "continuation_of K _ = PNone"

text \<open>
  \<open>serves list_more K next_url pages\<close>: starting from the continuation \<open>next_url\<close>, the
  fetcher hands out exactly the pages listed (each with the URL it is fetched by and
  its items), every page but the last continuing to the next, the last one having no
  continuation.
\<close>

fun serves ::
  "(pyval \<Rightarrow> py_error + pyval \<times> int) \<Rightarrow> string \<Rightarrow> pyval \<Rightarrow> (pyval \<times> pyval list) list
   \<Rightarrow> bool" where
  "serves list_more K next_url [] = (\<not> truthy next_url)"
| "serves list_more K next_url ((u, items) # pages) =
     (u = next_url \<and> truthy next_url
      \<and> (case list_more next_url of
            Inl e \<Rightarrow> False
          | Inr (res, st) \<Rightarrow>
              items_of res = Some items
              \<and> serves list_more K (continuation_of K res) pages))"

text \<open>What the generator does for one further page, and the items a run hands over.\<close>

definition page_run :: "pyval \<times> pyval list \<Rightarrow> gen_event list" where
  "page_run p = Fetch_more (fst p) # map Yield (snd p)"

fun yielded :: "gen_event list \<Rightarrow> pyval list" where
  "yielded [] = []"
| "yielded (Yield x # es) = x # yielded es"
| "yielded (_ # es) = yielded es"

subsection \<open>Examples\<close>

text \<open>
  A remote side for the examples: the token endpoint answers with a token; one user
  is not there (a JSON body); any other request gets a 404 with no headers at all.
\<close>

definition example_not_found :: response where
  "example_not_found =
     \<lparr>resp_status = 404, resp_headers = [(''content-type'', ''application/json'')],
      resp_json = Inr (PDict [(''error'', PStr ''no such user'')]),
      resp_read = Inl (ClientError ''consumed'')\<rparr>"

definition example_transport :: "http_request \<Rightarrow> py_error + response" where
  "example_transport r =
     (if req_method r = ''POST''
      then Inr \<lparr>resp_status = 200, resp_headers = [(''Content-Type'', ''application/json'')],
                resp_json = Inr (PDict [(''access_token'', PStr ''abc'')]),
                resp_read = Inl (ClientError ''consumed'')\<rparr>
      else if req_url r = ''https://graph.example/users/1''
      then Inr example_not_found
      else Inr \<lparr>resp_status = 404, resp_headers = [],
                resp_json = Inl (ClientError ''not JSON''), resp_read = Inr ''Not Found''\<rparr>)"

definition example_env :: env where
  "example_env =
     \<lparr>status2exception = status2exception_spec, UnknownError = ''unknown-api-error'',
      transport = example_transport\<rparr>"

definition example_token_request :: http_request where
  "example_token_request =
     \<lparr>req_method = ''POST'',
      req_url = ''https://login.microsoftonline.com/tenant/oauth2/v2.0/token'',
      req_headers = None,
      req_data = PDict [(''grant_type'', PStr ''client_credentials''),
                        (''scope'', PStr ''https://graph.microsoft.com/.default''),
                        (''client_id'', PStr ''app''),
                        (''client_secret'', PStr ''secret'')]\<rparr>"

definition example_managed :: GraphClient where
  "example_managed =
     \<lparr>token = PStr ''abc'', managed = True, token_refresh_interval_sec = 3300,
      scheduler_jobs = [(''app'', ''secret'', ''tenant'', 3300)], scheduler_running = True,
      enable_logging = False\<rparr>"

definition example_kwargs :: "pyval \<Rightarrow> headers option \<Rightarrow> kwargs" where
  "example_kwargs t extra =
     \<lparr>kw_token = t, kw_extra_headers = extra, kw_expected_statuses = None,
      kw_req_headers = None\<rparr>"

text \<open>Three pages of two items each; the third has no continuation field.\<close>

definition example_bulk :: "py_error + pyval \<times> int" where
  "example_bulk =
     Inr (PDict [(''value'', PList [PInt 1, PInt 2]), (''@odata.nextLink'', PStr ''page2'')],
          200)"

definition example_more :: "pyval \<Rightarrow> py_error + pyval \<times> int" where
  "example_more u =
     (if u = PStr ''page2''
      then Inr (PDict [(''value'', PList [PInt 3, PInt 4]),
                       (''@odata.nextLink'', PStr ''page3'')], 200)
      else if u = PStr ''page3''
      then Inr (PDict [(''value'', PList [PInt 5, PInt 6])], 200)
      else Inl (ClientError ''no such page''))"

section \<open>Properties of the query strings\<close>

lemma lower_name: "lower (LogicalConnector_name lc) = connector_word lc"
proof (cases lc)
  case AND
  show ?thesis unfolding AND by code_simp
next
  case OR
  show ?thesis unfolding OR by code_simp
qed

lemma format_template_rendered: "format_template (template op) a v = rendered op a v"
  by (cases op) (simp_all add: format_template_def)

lemma rendered_nonempty: "rendered op a v \<noteq> []"
  by (cases op) simp_all

lemma Constrain_str_typed: "Constrain_str (typed_constrain t) = Inr (rendered_t t)"
  by (cases t)
     (simp add: typed_constrain_def rendered_t_def Constrain_str_def format_template_rendered)

lemma join_Cons: "join sep (x # xs) = x @ concat (map (\<lambda>y. sep @ y) xs)"
  by (induction xs arbitrary: x) simp_all

lemma build_filter_loop_nonempty:
  assumes "logical_connector f = Some lc" and "res \<noteq> []"
  shows "build_filter_loop f (map typed_constrain ts) res =
         Inr (res @ concat (map (\<lambda>t. ('' '' @ connector_word lc @ '' '') @ rendered_t t) ts))"
  using assms(2)
proof (induction ts arbitrary: res)
  case Nil
  then show ?case by simp
next
  case (Cons t ts)
  then show ?case
    by (simp add: assms(1) Constrain_str_typed lower_name)
qed

lemma build_filter_loop_join:
  assumes "logical_connector f = Some lc"
  shows "build_filter_loop f (map typed_constrain ts) [] =
         Inr (join ('' '' @ connector_word lc @ '' '') (map rendered_t ts))"
proof (cases ts)
  case Nil
  then show ?thesis by simp
next
  case (Cons t ts')
  have "rendered_t t \<noteq> []"
    by (cases t) (simp add: rendered_t_def rendered_nonempty)
  then show ?thesis
    using build_filter_loop_nonempty [OF assms, of "rendered_t t" ts']
    by (simp add: Cons Constrain_str_typed join_Cons comp_def)
qed

lemma lower_str_bool_True: "lower (str_bool True) = ''true''"
  by code_simp

lemma str_int_50: "str_int 50 = ''50''"
  by code_simp

lemma nothing_set_iff:
  "nothing_set q \<longleftrightarrow> (\<not> count_truthy q \<and> \<not> expand_truthy q \<and> \<not> filter_truthy q
         \<and> \<not> select_truthy q \<and> \<not> top_truthy q)"
  unfolding nothing_set_def count_truthy_def expand_truthy_def filter_truthy_def
    select_truthy_def top_truthy_def
  by (cases "count q"; cases "expand q"; cases "filter_q q"; cases "select q"; cases "top_q q")
     auto

lemma filter_constrains_truthy_set: "filter_constrains_truthy q \<Longrightarrow> \<not> nothing_set q"
  by (cases "filter_q q") (simp_all add: filter_constrains_truthy_def nothing_set_def)

lemma ODataQuery_str_eq:
  assumes "filter_constrains_truthy q \<longrightarrow> build_filter q = Inr fs"
  shows "ODataQuery_str q =
           Inr (if nothing_set q then ''EMPTY OPEN DATA QUERY''
                else ''?'' @ join ''&'' (query_pairs q fs))"
proof (cases "nothing_set q")
  case True
  then show ?thesis
    by (simp add: ODataQuery_str_def nothing_set_iff)
next
  case False
  then have ne: "\<not> (\<not> count_truthy q \<and> \<not> expand_truthy q \<and> \<not> filter_truthy q
         \<and> \<not> select_truthy q \<and> \<not> top_truthy q)"
    by (simp add: nothing_set_iff)
  show ?thesis
  proof (cases "filter_constrains_truthy q")
    case True
    with assms have "build_filter q = Inr fs" by simp
    with True False ne show ?thesis
      unfolding ODataQuery_str_def query_pairs_def Let_def
      by (simp add: lower_str_bool_True split: option.splits)
  next
    case nf: False
    with False ne show ?thesis
      unfolding ODataQuery_str_def query_pairs_def Let_def
      by (simp add: lower_str_bool_True split: option.splits)
  qed
qed

lemma ODataQuery_str_raises:
  assumes "filter_constrains_truthy q" and "build_filter q = Inl e"
  shows "ODataQuery_str q = Inl e"
proof -
  have "\<not> (\<not> count_truthy q \<and> \<not> expand_truthy q \<and> \<not> filter_truthy q
         \<and> \<not> select_truthy q \<and> \<not> top_truthy q)"
    using filter_constrains_truthy_set [OF assms(1)] by (simp add: nothing_set_iff)
  with assms show ?thesis
    unfolding ODataQuery_str_def Let_def by simp
qed

lemma build_filter_count: "build_filter (q\<lparr>count := c\<rparr>) = build_filter q"
  by (simp add: build_filter_def)

text \<open>
  C1 (as amended). String conversion is a function of the query. Whenever the filter
  clause, if it is rendered, builds to \<open>fs\<close>, the result is the empty-query sentinel
  when every field is unset or false (\<^verbatim>\<open>None\<close>, \<^verbatim>\<open>False\<close>, the empty string, the empty
  list, 0; no filter object), and otherwise \<^verbatim>\<open>?\<close> followed by the key=value pairs of
  the fields that are set and true, joined by \<^verbatim>\<open>&\<close> in the order count, expand, filter,
  select, top, the filter only when it has constraints. When the filter clause is
  rendered and fails to build, conversion raises the same exception. A query with only
  top=50 gives \<^verbatim>\<open>?$top=50\<close>, and a query with nothing set gives the sentinel.
\<close>

theorem ODataQuery_str_contract:
  "((filter_constrains_truthy q \<longrightarrow> build_filter q = Inr fs) \<longrightarrow>
     ODataQuery_str q =
       Inr (if nothing_set q then ''EMPTY OPEN DATA QUERY''
            else ''?'' @ join ''&'' (query_pairs q fs)))
   \<and> (filter_constrains_truthy q \<and> build_filter q = Inl e \<longrightarrow> ODataQuery_str q = Inl e)"
  by (simp add: ODataQuery_str_eq ODataQuery_str_raises)

theorem ODataQuery_str_contract_witness:
  "ODataQuery_str (ODataQuery_init\<lparr>top_q := Some 50\<rparr>) = Inr ''?$top=50''
   \<and> ODataQuery_str ODataQuery_init = Inr ''EMPTY OPEN DATA QUERY''
   \<and> ODataQuery_str
       (ODataQuery_init\<lparr>filter_q := Some (Filter (Some [Constrain PNone PNone PNone]) None)\<rparr>)
     = Inl AttributeError"
  using ODataQuery_str_contract [of "ODataQuery_init\<lparr>top_q := Some 50\<rparr>" "[]"]
    ODataQuery_str_contract [of "ODataQuery_init" "[]"]
    ODataQuery_str_contract [of
      "ODataQuery_init\<lparr>filter_q := Some (Filter (Some [Constrain PNone PNone PNone]) None)\<rparr>"
      "[]" AttributeError]
  by (simp add: ODataQuery_init_def filter_constrains_truthy_def nothing_set_def
      query_pairs_def str_int_50 build_filter_def Constrain_str_def)

text \<open>
  The claim as stated fails where a field is set to the false value of its type: a
  query whose top is set to 0 is converted to the sentinel, not to \<^verbatim>\<open>?$top=0\<close>.
\<close>

theorem ODataQuery_str_falsy_counterexample:
  "top_setter ODataQuery_init (PInt 0) = Inr (ODataQuery_init\<lparr>top_q := Some 0\<rparr>)
   \<and> ODataQuery_str (ODataQuery_init\<lparr>top_q := Some 0\<rparr>) = Inr ''EMPTY OPEN DATA QUERY''
   \<and> ODataQuery_str (ODataQuery_init\<lparr>top_q := Some 0\<rparr>) \<noteq> Inr ''?$top=0''"
  by (simp add: top_setter_def ODataQuery_str_def ODataQuery_init_def count_truthy_def
      expand_truthy_def filter_truthy_def select_truthy_def top_truthy_def)

text \<open>
  C7 (as amended). A count of \<^verbatim>\<open>True\<close> is serialized as \<^verbatim>\<open>$count=true\<close>, the first pair
  of the query string (whenever the filter clause, if rendered, builds); a count of
  \<^verbatim>\<open>False\<close> is serialized exactly as a count that was never set.
\<close>

theorem count_serialization:
  "((filter_constrains_truthy q \<longrightarrow> build_filter q = Inr fs) \<and> count q = Some True \<longrightarrow>
      ODataQuery_str q
      = Inr (''?$count=true''
             @ concat (map (\<lambda>p. ''&'' @ p) (query_pairs (q\<lparr>count := None\<rparr>) fs))))
   \<and> ODataQuery_str (q\<lparr>count := Some False\<rparr>) = ODataQuery_str (q\<lparr>count := None\<rparr>)"
proof (intro conjI impI)
  assume a: "(filter_constrains_truthy q \<longrightarrow> build_filter q = Inr fs) \<and> count q = Some True"
  then have "\<not> nothing_set q" by (simp add: nothing_set_def)
  moreover have "query_pairs q fs = ''$count=true'' # query_pairs (q\<lparr>count := None\<rparr>) fs"
    using a by (simp add: query_pairs_def filter_constrains_truthy_def)
  ultimately show "ODataQuery_str q
      = Inr (''?$count=true''
             @ concat (map (\<lambda>p. ''&'' @ p) (query_pairs (q\<lparr>count := None\<rparr>) fs)))"
    using ODataQuery_str_eq [of q fs] a by (simp add: join_Cons)
next
  show "ODataQuery_str (q\<lparr>count := Some False\<rparr>) = ODataQuery_str (q\<lparr>count := None\<rparr>)"
    by (simp add: ODataQuery_str_def count_truthy_def expand_truthy_def filter_truthy_def
        select_truthy_def top_truthy_def filter_constrains_truthy_def build_filter_count
        Let_def cong: if_cong sum.case_cong)
qed

theorem count_serialization_witness:
  "ODataQuery_str (ODataQuery_init\<lparr>count := Some True, top_q := Some 50\<rparr>)
     = Inr ''?$count=true&$top=50''
   \<and> ODataQuery_str (ODataQuery_init\<lparr>count := Some False, top_q := Some 50\<rparr>)
     = ODataQuery_str (ODataQuery_init\<lparr>count := None, top_q := Some 50\<rparr>)"
  using count_serialization [of "ODataQuery_init\<lparr>count := Some True, top_q := Some 50\<rparr>" "[]"]
    count_serialization [of "ODataQuery_init\<lparr>top_q := Some 50\<rparr>" "[]"]
  by (simp add: ODataQuery_init_def filter_constrains_truthy_def query_pairs_def str_int_50)

text \<open>
  The claim as stated fails: a query whose count is set to \<^verbatim>\<open>False\<close> is converted to
  the very sentinel a query with nothing set is converted to.
\<close>

theorem count_False_counterexample:
  "count_setter ODataQuery_init (PBool False) = Inr (ODataQuery_init\<lparr>count := Some False\<rparr>)
   \<and> ODataQuery_str (ODataQuery_init\<lparr>count := Some False\<rparr>) = Inr ''EMPTY OPEN DATA QUERY''
   \<and> ODataQuery_str ODataQuery_init = Inr ''EMPTY OPEN DATA QUERY''"
  by (simp add: count_setter_def ODataQuery_str_def ODataQuery_init_def count_truthy_def
      expand_truthy_def filter_truthy_def select_truthy_def top_truthy_def)

text \<open>
  C9. For a filter with a non-empty list of constraints (attribute, operator, value,
  the attribute and the value strings) and a connector, \<^verbatim>\<open>_build_filter\<close> returns the
  constraints, each rendered by the template of its operator with the attribute and
  the value put in as they are, joined by the lower-case name of the connector between
  blanks; and the query with only this filter set is converted to \<^verbatim>\<open>?$filter=\<close> followed
  by that text.
\<close>

theorem filter_serialization:
  assumes "constrains_f f = Some (map typed_constrain ts)" and "ts \<noteq> []"
    and "logical_connector f = Some lc"
  shows "build_filter (q\<lparr>filter_q := Some f\<rparr>)
         = Inr (join ('' '' @ connector_word lc @ '' '') (map rendered_t ts))
       \<and> ODataQuery_str (ODataQuery_init\<lparr>filter_q := Some f\<rparr>)
         = Inr (''?$filter='' @ join ('' '' @ connector_word lc @ '' '') (map rendered_t ts))"
proof -
  have b: "build_filter (r\<lparr>filter_q := Some f\<rparr>)
         = Inr (join ('' '' @ connector_word lc @ '' '') (map rendered_t ts))" for r
    using assms(1) build_filter_loop_join [OF assms(3), of ts]
    by (simp add: build_filter_def)
  have t: "filter_constrains_truthy (ODataQuery_init\<lparr>filter_q := Some f\<rparr>)"
    using assms(1,2) by (simp add: filter_constrains_truthy_def)
  have "ODataQuery_str (ODataQuery_init\<lparr>filter_q := Some f\<rparr>)
         = Inr (''?$filter='' @ join ('' '' @ connector_word lc @ '' '') (map rendered_t ts))"
    using ODataQuery_str_eq [of "ODataQuery_init\<lparr>filter_q := Some f\<rparr>", OF impI, OF b] t
    by (simp add: nothing_set_def query_pairs_def ODataQuery_init_def)
  with b show ?thesis by simp
qed

theorem filter_serialization_witness:
  "ODataQuery_str (ODataQuery_init\<lparr>filter_q := Some (Filter
       (Some [Constrain (PStr ''name'') (POperator EQ) (PStr (CHR 0x27 # ''x'' @ [CHR 0x27])),
              Constrain (PStr ''age'') (POperator GT) (PStr (CHR 0x27 # ''10'' @ [CHR 0x27]))])
       (Some OR))\<rparr>)
   = Inr (''?$filter=name eq '' @ CHR 0x27 # ''x'' @ CHR 0x27 # '' or age gt '' @ CHR 0x27 # ''10''
          @ [CHR 0x27])"
  using filter_serialization [of
      "Filter (Some [Constrain (PStr ''name'') (POperator EQ) (PStr (CHR 0x27 # ''x'' @ [CHR 0x27])),
              Constrain (PStr ''age'') (POperator GT) (PStr (CHR 0x27 # ''10'' @ [CHR 0x27]))])
       (Some OR)"
      "[(''name'', EQ, CHR 0x27 # ''x'' @ [CHR 0x27]), (''age'', GT, CHR 0x27 # ''10'' @ [CHR 0x27])]"
      OR ODataQuery_init]
  by (simp add: typed_constrain_def rendered_t_def)

text \<open>
  C10. A query whose only populated field is a \<^verbatim>\<open>Filter\<close> object with no constraints
  (the list unset or empty) is converted to the single character \<^verbatim>\<open>?\<close>.
\<close>

theorem empty_filter_question_mark:
  assumes "constrains_f f = None \<or> constrains_f f = Some []"
  shows "ODataQuery_str (ODataQuery_init\<lparr>filter_q := Some f\<rparr>) = Inr ''?''"
  using assms
  by (auto simp add: ODataQuery_str_def ODataQuery_init_def count_truthy_def
      expand_truthy_def filter_truthy_def select_truthy_def top_truthy_def
      filter_constrains_truthy_def)

theorem empty_filter_question_mark_witness:
  "ODataQuery_str (ODataQuery_init\<lparr>filter_q := Some Filter_init\<rparr>) = Inr ''?''
   \<and> ODataQuery_str (ODataQuery_init\<lparr>filter_q := Some (Filter (Some []) (Some AND))\<rparr>) = Inr ''?''"
  using empty_filter_question_mark [of Filter_init]
    empty_filter_question_mark [of "Filter (Some []) (Some AND)"]
  by (simp add: Filter_init_def)

lemma count_setter_rejects:
  "type_of v \<noteq> T_bool \<Longrightarrow> count_setter q v = Inl (ValueError ''count must be boolean'')"
  by (cases v) (simp_all add: count_setter_def)

lemma expand_setter_rejects:
  "type_of v \<noteq> T_str \<Longrightarrow> expand_setter q v = Inl (ValueError ''expand must be string'')"
  by (cases v) (simp_all add: expand_setter_def)

lemma filter_setter_rejects:
  "type_of v \<noteq> T_Filter \<Longrightarrow> filter_setter q v = Inl (ValueError ''filter must of Filter type'')"
  by (cases v) (simp_all add: filter_setter_def)

lemma top_setter_rejects:
  "type_of v \<noteq> T_int \<Longrightarrow> top_setter q v = Inl (ValueError ''top must be integer'')"
  by (cases v) (simp_all add: top_setter_def)

lemma select_setter_rejects:
  "type_of v \<noteq> T_list \<Longrightarrow> select_setter q v = Inl (ValueError ''select must be list of strings'')"
  by (cases v) (simp_all add: select_setter_def)

lemma all_strs_None: "\<exists>x\<in>set vs. type_of x \<noteq> T_str \<Longrightarrow> all_strs vs = None"
  by (induction vs rule: all_strs.induct) (auto split: option.splits)

lemma all_strs_Some: "all_strs (map PStr ss) = Some ss"
  by (induction ss) simp_all

lemma select_setter_rejects_element:
  "\<exists>x\<in>set vs. type_of x \<noteq> T_str \<Longrightarrow>
   select_setter q (PList vs) = Inl (ValueError ''all values should be strings'')"
  by (simp add: select_setter_def all_strs_None)

lemma constrains_setter_rejects:
  "type_of v \<noteq> T_list \<Longrightarrow> constrains_setter f v = Inl (ValueError ''constrains must be list'')"
  by (cases v) (simp_all add: constrains_setter_def)

lemma all_constrains_None:
  "\<exists>x\<in>set vs. type_of x \<noteq> T_Constrain \<Longrightarrow> all_constrains vs = None"
  by (induction vs rule: all_constrains.induct) (auto split: option.splits)

lemma all_constrains_Some: "all_constrains (map PConstrain cs) = Some cs"
  by (induction cs) simp_all

lemma constrains_setter_rejects_element:
  "\<exists>x\<in>set vs. type_of x \<noteq> T_Constrain \<Longrightarrow>
   constrains_setter f (PList vs) = Inl (ValueError ''all values must be constrains'')"
  by (simp add: constrains_setter_def all_constrains_None)

lemma logical_connector_setter_rejects:
  "type_of v \<noteq> T_LogicalConnector \<Longrightarrow>
   logical_connector_setter f v
   = Inl (ValueError ''logical connector must be of type LogicalConnector'')"
  by (cases v) (simp_all add: logical_connector_setter_def)

text \<open>
  C8 (as amended). Every setter of \<^verbatim>\<open>ODataQuery\<close> and of \<^verbatim>\<open>Filter\<close> checks the type of
  the value when it is assigned and raises \<^verbatim>\<open>ValueError\<close> with its own message for a
  value of another type (for the two list setters, also for a list with an element of
  another type), and stores a value of the right type. \<^verbatim>\<open>Constrain.__init__\<close> checks
  nothing: it accepts any attribute, operator and value.
\<close>

theorem setters_fail_fast:
  "(type_of v \<noteq> T_bool \<longrightarrow> count_setter q v = Inl (ValueError ''count must be boolean''))
   \<and> (type_of v \<noteq> T_str \<longrightarrow> expand_setter q v = Inl (ValueError ''expand must be string''))
   \<and> (type_of v \<noteq> T_Filter \<longrightarrow>
        filter_setter q v = Inl (ValueError ''filter must of Filter type''))
   \<and> (type_of v \<noteq> T_list \<longrightarrow>
        select_setter q v = Inl (ValueError ''select must be list of strings''))
   \<and> ((\<exists>x\<in>set vs. type_of x \<noteq> T_str) \<longrightarrow>
        select_setter q (PList vs) = Inl (ValueError ''all values should be strings''))
   \<and> (type_of v \<noteq> T_int \<longrightarrow> top_setter q v = Inl (ValueError ''top must be integer''))
   \<and> (type_of v \<noteq> T_list \<longrightarrow>
        constrains_setter f v = Inl (ValueError ''constrains must be list''))
   \<and> ((\<exists>x\<in>set vs. type_of x \<noteq> T_Constrain) \<longrightarrow>
        constrains_setter f (PList vs) = Inl (ValueError ''all values must be constrains''))
   \<and> (type_of v \<noteq> T_LogicalConnector \<longrightarrow>
        logical_connector_setter f v
        = Inl (ValueError ''logical connector must be of type LogicalConnector''))
   \<and> count_setter q (PBool b) = Inr (q\<lparr>count := Some b\<rparr>)
   \<and> expand_setter q (PStr s) = Inr (q\<lparr>expand := Some s\<rparr>)
   \<and> filter_setter q (PFilter g) = Inr (q\<lparr>filter_q := Some g\<rparr>)
   \<and> select_setter q (PList (map PStr ss)) = Inr (q\<lparr>select := Some ss\<rparr>)
   \<and> top_setter q (PInt i) = Inr (q\<lparr>top_q := Some i\<rparr>)
   \<and> constrains_setter f (PList (map PConstrain cs))
       = Inr (Filter (Some cs) (logical_connector f))
   \<and> logical_connector_setter f (PConnector lc) = Inr (Filter (constrains_f f) (Some lc))
   \<and> Constrain_init a op w = Inr (Constrain a op w)"
proof -
  have accepts:
    "count_setter q (PBool b) = Inr (q\<lparr>count := Some b\<rparr>)"
    "expand_setter q (PStr s) = Inr (q\<lparr>expand := Some s\<rparr>)"
    "filter_setter q (PFilter g) = Inr (q\<lparr>filter_q := Some g\<rparr>)"
    "select_setter q (PList (map PStr ss)) = Inr (q\<lparr>select := Some ss\<rparr>)"
    "top_setter q (PInt i) = Inr (q\<lparr>top_q := Some i\<rparr>)"
    "constrains_setter f (PList (map PConstrain cs))
     = Inr (Filter (Some cs) (logical_connector f))"
    "logical_connector_setter f (PConnector lc) = Inr (Filter (constrains_f f) (Some lc))"
    "Constrain_init a op w = Inr (Constrain a op w)"
    by (simp_all add: count_setter_def expand_setter_def filter_setter_def select_setter_def
        top_setter_def constrains_setter_def logical_connector_setter_def Constrain_init_def
        all_strs_Some all_constrains_Some)
  show ?thesis
    by (intro conjI impI count_setter_rejects expand_setter_rejects filter_setter_rejects
        select_setter_rejects select_setter_rejects_element top_setter_rejects
        constrains_setter_rejects constrains_setter_rejects_element
        logical_connector_setter_rejects accepts)
qed

theorem setters_fail_fast_witness:
  "count_setter ODataQuery_init PNone = Inl (ValueError ''count must be boolean'')
   \<and> expand_setter ODataQuery_init PNone = Inl (ValueError ''expand must be string'')
   \<and> filter_setter ODataQuery_init PNone = Inl (ValueError ''filter must of Filter type'')
   \<and> select_setter ODataQuery_init PNone = Inl (ValueError ''select must be list of strings'')
   \<and> select_setter ODataQuery_init (PList [PStr ''id'', PNone])
       = Inl (ValueError ''all values should be strings'')
   \<and> top_setter ODataQuery_init PNone = Inl (ValueError ''top must be integer'')
   \<and> constrains_setter Filter_init PNone = Inl (ValueError ''constrains must be list'')
   \<and> constrains_setter Filter_init (PList [PStr ''id'', PNone])
       = Inl (ValueError ''all values must be constrains'')
   \<and> logical_connector_setter Filter_init PNone
       = Inl (ValueError ''logical connector must be of type LogicalConnector'')"
  using setters_fail_fast [of PNone ODataQuery_init "[PStr ''id'', PNone]" Filter_init]
  by simp

text \<open>
  The claim as stated fails for \<^verbatim>\<open>Constrain\<close>: built from an integer attribute, a string
  in the place of the operator and a list value, the object is made without complaint,
  and the failure comes only when it is converted to a string.
\<close>

theorem Constrain_unchecked_counterexample:
  "Constrain_init (PInt 1) (PStr ''eq'') (PList [])
     = Inr (Constrain (PInt 1) (PStr ''eq'') (PList []))
   \<and> Constrain_str (Constrain (PInt 1) (PStr ''eq'') (PList [])) = Inl AttributeError"
  by (simp add: Constrain_init_def Constrain_str_def)

section \<open>Properties of the client\<close>

lemma lower_content_type: "lower ''content-type'' = lower ''Content-Type''"
  by code_simp

lemma contains_json: "contains ''application/json'' ''application/json''"
  by code_simp

lemma startswith_bearer:
  "\<not> startswith (lower ''abc'') ''bearer''" "startswith (lower ''Bearer abc'') ''bearer''"
  by code_simp+

text \<open>
  What \<^verbatim>\<open>_request\<close> does with a response that has a Content-Type header and a payload
  that is read without an exception, when the caller gives no expected statuses: it
  returns the payload and the status if the status is 200, 204 or 201, and otherwise
  raises the exception class the table gives for the status (the fallback class for a
  status the table does not have), made from the payload and the response headers.
\<close>

lemma request_default_statuses:
  assumes "transport env \<lparr>req_method = method, req_url = url, req_headers = headers,
                          req_data = data\<rparr> = Inr resp"
    and "header_getitem (resp_headers resp) ''Content-Type'' = Inr ct"
    and "(if contains ''application/json'' ct then resp_json resp
          else map_sum id PBytes (resp_read resp)) = Inr r"
  shows "request env method url headers data None sent =
           (if resp_status resp \<in> {HTTPStatus_OK, HTTPStatus_NO_CONTENT, HTTPStatus_CREATED}
            then Inr (r, resp_status resp)
            else Inl (ApiError (case status2exception env (resp_status resp) of
                                  None \<Rightarrow> UnknownError env | Some c \<Rightarrow> c)
                        r (resp_headers resp)),
            sent @ [\<lparr>req_method = method, req_url = url, req_headers = headers,
                     req_data = data\<rparr>])"
  using assms by (simp add: request_def Let_def)

lemma request_default_statuses_example:
  "request example_env ''GET'' ''https://graph.example/users/1'' None PNone None [] =
     (Inl (ApiError ''not-found'' (PDict [(''error'', PStr ''no such user'')])
             [(''content-type'', ''application/json'')]),
      [\<lparr>req_method = ''GET'', req_url = ''https://graph.example/users/1'', req_headers = None,
        req_data = PNone\<rparr>])"
proof -
  have t: "transport example_env \<lparr>req_method = ''GET'',
             req_url = ''https://graph.example/users/1'',
             req_headers = None, req_data = PNone\<rparr> = Inr example_not_found"
    by (simp add: example_env_def example_transport_def)
  have h: "header_getitem (resp_headers example_not_found) ''Content-Type''
           = Inr ''application/json''"
    by (simp add: example_not_found_def lower_content_type)
  have b: "(if contains ''application/json'' ''application/json''
            then resp_json example_not_found
            else map_sum id PBytes (resp_read example_not_found))
           = Inr (PDict [(''error'', PStr ''no such user'')])"
    by (simp add: contains_json example_not_found_def)
  show ?thesis
    using request_default_statuses [OF t h b, of "[]"]
    by (simp add: example_env_def example_not_found_def status2exception_spec_def
        HTTPStatus_OK_def HTTPStatus_NO_CONTENT_def HTTPStatus_CREATED_def)
qed

text \<open>
  C3. The claim asks that a response whose status is not among the expected ones raises
  the exception class the table selects, carrying the payload and the headers; a 404
  under the default expected statuses is to raise the not-found class with the body.
  The code does not do so for a response without a Content-Type header: for a 404 with
  a body and no headers, \<^verbatim>\<open>_request\<close> raises \<^verbatim>\<open>KeyError\<close> where it indexes the headers
  (line 104), before the status is looked at.
\<close>

theorem request_no_content_type_failing_input:
  "transport example_env \<lparr>req_method = ''GET'', req_url = ''https://graph.example/users/2'',
       req_headers = None, req_data = PNone\<rparr>
     = Inr \<lparr>resp_status = 404, resp_headers = [],
            resp_json = Inl (ClientError ''not JSON''), resp_read = Inr ''Not Found''\<rparr>
   \<and> request example_env ''GET'' ''https://graph.example/users/2'' None PNone None [] =
     (Inl (KeyError ''Content-Type''),
      [\<lparr>req_method = ''GET'', req_url = ''https://graph.example/users/2'', req_headers = None,
        req_data = PNone\<rparr>])"
  by (simp add: request_def example_env_def example_transport_def)

lemma example_manage_token:
  "manage_token example_env (GraphClient_init False) ''app'' ''secret'' ''tenant'' []
   = (Inr (), example_managed, [example_token_request])"
  by (simp add: manage_token_def refresh_token_def acquire_token_def request_def
      GraphClient_init_def example_env_def example_transport_def example_managed_def
      example_token_request_def lower_content_type contains_json
      HTTPStatus_OK_def HTTPStatus_NO_CONTENT_def HTTPStatus_CREATED_def)

lemma manage_token_managed:
  "manage_token env c a s t sent = (Inr u, c', sent') \<Longrightarrow> managed c'"
  by (auto simp: manage_token_def split: if_splits prod.splits sum.splits)

text \<open>
  C4. On a client that is in managed mode, \<^verbatim>\<open>manage_token\<close> raises
  \<^verbatim>\<open>GraphClientException\<close> (Token is already managed); the client, and so the stored
  token, is as it was, and no request is sent.
\<close>

theorem manage_token_twice:
  assumes "managed c"
  shows "manage_token env c app_id app_secret tenant_id sent =
           (Inl (GraphClientException ''Token is already managed''), c, sent)"
  using assms by (simp add: manage_token_def)

theorem manage_token_twice_witness:
  "manage_token example_env (GraphClient_init False) ''app'' ''secret'' ''tenant'' []
     = (Inr (), example_managed, [example_token_request])
   \<and> manage_token example_env example_managed ''app'' ''secret'' ''tenant''
       [example_token_request]
     = (Inl (GraphClientException ''Token is already managed''), example_managed,
        [example_token_request])"
  using example_manage_token
    manage_token_twice [of example_managed example_env "''app''" "''secret''" "''tenant''"
      "[example_token_request]"]
  by (simp add: example_managed_def)

text \<open>
  C6 (as amended). Whether or not the client is in managed mode, assigning an integer
  below 60 or above 3600 to \<^verbatim>\<open>token_refresh_interval_sec\<close> raises \<^verbatim>\<open>ValueError\<close>, and an
  integer from 60 to 3600 is stored; the setter sends nothing. Assigning 30 fails.
\<close>

theorem refresh_interval_setter:
  "(v < 60 \<or> 3600 < v \<longrightarrow>
      token_refresh_interval_sec_setter c v
      = Inl (ValueError ''refresh interval must be between 60 and 3600 seconds''))
   \<and> (60 \<le> v \<and> v \<le> 3600 \<longrightarrow>
      token_refresh_interval_sec_setter c v = Inr (c\<lparr>token_refresh_interval_sec := v\<rparr>))"
  by (auto simp: token_refresh_interval_sec_setter_def)

theorem refresh_interval_setter_witness:
  "token_refresh_interval_sec_setter (GraphClient_init False) 30
     = Inl (ValueError ''refresh interval must be between 60 and 3600 seconds'')
   \<and> token_refresh_interval_sec_setter (GraphClient_init False) 3601
     = Inl (ValueError ''refresh interval must be between 60 and 3600 seconds'')
   \<and> token_refresh_interval_sec_setter (GraphClient_init False) 60
     = Inr ((GraphClient_init False)\<lparr>token_refresh_interval_sec := 60\<rparr>)"
  using refresh_interval_setter [of 30 "GraphClient_init False"]
    refresh_interval_setter [of 3601 "GraphClient_init False"]
    refresh_interval_setter [of 60 "GraphClient_init False"]
  by simp

text \<open>
  The claim as stated fails in its first part: on the client that \<^verbatim>\<open>manage_token\<close> has
  just put in managed mode, assigning 120 succeeds.
\<close>

theorem refresh_interval_managed_counterexample:
  "manage_token example_env (GraphClient_init False) ''app'' ''secret'' ''tenant'' []
     = (Inr (), example_managed, [example_token_request])
   \<and> managed example_managed
   \<and> token_refresh_interval_sec_setter example_managed 120
     = Inr (example_managed\<lparr>token_refresh_interval_sec := 120\<rparr>)"
  using example_manage_token
  by (simp add: token_refresh_interval_sec_setter_def example_managed_def)

lemma map_of_dict_setitem: "map_of (dict_setitem d k v) = (map_of d)(k \<mapsto> v)"
  by (induction d k v rule: dict_setitem.induct) (auto simp: fun_eq_iff)

lemma map_of_dict_update:
  "distinct (map fst e) \<Longrightarrow> map_of (dict_update d e) = map_of d ++ map_of e"
proof (induction d e rule: dict_update.induct)
  case (1 d)
  then show ?case by simp
next
  case (2 d k v e)
  then have "map_of e k = None"
    by (simp add: map_of_eq_None_iff)
  with 2 show ?case
    by (auto simp: map_of_dict_setitem fun_eq_iff map_add_def split: option.splits)
qed

lemma authorized_no_token:
  assumes "\<not> truthy (token c)" and "\<not> truthy (kw_token kw)"
  shows "authorized func c kw w
         = (Inl (Exception ''Token is not managed so you must explicitly provide it''), w)"
  using assms by (simp add: authorized_def)

lemma authorized_extra:
  "(case kw_extra_headers kw of None \<Rightarrow> h | Some extra \<Rightarrow> if extra = [] then h else dict_update h extra)
   = dict_update h (case kw_extra_headers kw of None \<Rightarrow> [] | Some extra \<Rightarrow> extra)"
  by (cases "kw_extra_headers kw") simp_all

lemma authorized_with_token:
  assumes "(if truthy (kw_token kw) then kw_token kw else token c) = PStr t" and "t \<noteq> []"
  shows "authorized func c kw w
         = func c (kw\<lparr>kw_req_headers := Some (dict_update
               [(''authorization'', if startswith (lower t) ''bearer'' then t else ''bearer '' @ t),
                (''Content-type'', ''application/json'')]
               (case kw_extra_headers kw of None \<Rightarrow> [] | Some extra \<Rightarrow> extra))\<rparr>) w"
proof (cases "truthy (kw_token kw)")
  case True
  with assms(1) show ?thesis
    by (simp add: authorized_def Let_def authorized_extra)
next
  case False
  with assms have "token c = PStr t" and "truthy (token c)"
    by simp_all
  with False show ?thesis
    by (simp add: authorized_def Let_def authorized_extra)
qed

lemma sent_headers_lookup:
  assumes "distinct (map fst extra)"
  shows "map_of (dict_update
               [(''authorization'', if startswith (lower t) ''bearer'' then t else ''bearer '' @ t),
                (''Content-type'', ''application/json'')] extra)
         = auth_headers t (map_of extra)"
  by (simp add: map_of_dict_update [OF assms] fun_eq_iff auth_headers_def map_add_def
      split: option.splits)

text \<open>
  C5. An operation under the decorator \<^verbatim>\<open>authorized\<close>, called with no token in the call
  and none stored on the client, raises \<^verbatim>\<open>Exception\<close> (Token is not managed ...) and
  leaves the world as it was: the operation is not run, and \<^verbatim>\<open>list_more_users\<close> sends
  no request. With a token that is a non-empty string (the one of the call, else the
  stored one), the operation is run with the headers made of \<^verbatim>\<open>authorization\<close> (the
  token itself when it starts with bearer in any case, else \<^verbatim>\<open>bearer\<close>, a blank and the
  token) and \<^verbatim>\<open>Content-type: application/json\<close>, updated with the caller's extra
  headers; looked up by name, the caller's header wins, then the content type and
  the authorization; \<^verbatim>\<open>list_more_users\<close> sends its request with these headers.
\<close>

theorem authorized_contract:
  "(\<not> truthy (token c) \<and> \<not> truthy (kw_token kw) \<longrightarrow>
      authorized func c kw w
      = (Inl (Exception ''Token is not managed so you must explicitly provide it''), w)
      \<and> list_more_users env next_url c kw sent
      = (Inl (Exception ''Token is not managed so you must explicitly provide it''), sent))
   \<and> ((if truthy (kw_token kw) then kw_token kw else token c) = PStr t \<and> t \<noteq> []
       \<and> hs = dict_update
               [(''authorization'', if startswith (lower t) ''bearer'' then t else ''bearer '' @ t),
                (''Content-type'', ''application/json'')]
               (case kw_extra_headers kw of None \<Rightarrow> [] | Some extra \<Rightarrow> extra) \<longrightarrow>
      authorized func c kw w = func c (kw\<lparr>kw_req_headers := Some hs\<rparr>) w
      \<and> list_more_users env next_url c kw sent
        = request env ''GET'' next_url (Some hs) PNone (kw_expected_statuses kw) sent
      \<and> (distinct (map fst (case kw_extra_headers kw of None \<Rightarrow> [] | Some extra \<Rightarrow> extra)) \<longrightarrow>
         map_of hs
         = auth_headers t (map_of (case kw_extra_headers kw of None \<Rightarrow> [] | Some extra \<Rightarrow> extra))))"
  by (simp add: authorized_no_token authorized_with_token list_more_users_def
      sent_headers_lookup)

theorem authorized_contract_witness:
  "list_more_users example_env ''https://graph.example/users/1'' (GraphClient_init False)
       (example_kwargs PNone None) []
     = (Inl (Exception ''Token is not managed so you must explicitly provide it''), [])
   \<and> authorized (\<lambda>self kw w. (Inr (kw_req_headers kw), w)) (GraphClient_init False)
       (example_kwargs (PStr ''abc'') (Some [(''Content-type'', ''text/plain''), (''x'', ''y'')]))
       ()
     = (Inr (Some [(''authorization'', ''bearer abc''), (''Content-type'', ''text/plain''),
                   (''x'', ''y'')]), ())
   \<and> authorized (\<lambda>self kw w. (Inr (kw_req_headers kw), w)) example_managed
       (example_kwargs PNone None) ()
     = (Inr (Some [(''authorization'', ''bearer abc''),
                   (''Content-type'', ''application/json'')]), ())
   \<and> authorized (\<lambda>self kw w. (Inr (kw_req_headers kw), w)) example_managed
       (example_kwargs (PStr ''Bearer abc'') None) ()
     = (Inr (Some [(''authorization'', ''Bearer abc''),
                   (''Content-type'', ''application/json'')]), ())"
  using authorized_contract [of "GraphClient_init False" "example_kwargs PNone None"
        "\<lambda>self kw w. (Inr (kw_req_headers kw), w)" "()" example_env
        "''https://graph.example/users/1''" "[]" "''abc''" "[]"]
    authorized_contract [of "GraphClient_init False"
        "example_kwargs (PStr ''abc'') (Some [(''Content-type'', ''text/plain''), (''x'', ''y'')])"
        "\<lambda>self kw w. (Inr (kw_req_headers kw), w)" "()" example_env
        "''https://graph.example/users/1''" "[]" "''abc''"
        "[(''authorization'', ''bearer abc''), (''Content-type'', ''text/plain''), (''x'', ''y'')]"]
    authorized_contract [of example_managed "example_kwargs PNone None"
        "\<lambda>self kw w. (Inr (kw_req_headers kw), w)" "()" example_env
        "''https://graph.example/users/1''" "[]" "''abc''"
        "[(''authorization'', ''bearer abc''), (''Content-type'', ''application/json'')]"]
    authorized_contract [of example_managed "example_kwargs (PStr ''Bearer abc'') None"
        "\<lambda>self kw w. (Inr (kw_req_headers kw), w)" "()" example_env
        "''https://graph.example/users/1''" "[]" "''Bearer abc''"
        "[(''authorization'', ''Bearer abc''), (''Content-type'', ''application/json'')]"]
  by (simp add: GraphClient_init_def example_kwargs_def example_managed_def startswith_bearer)

lemma page_run_pair: "page_run (u, items) = Fetch_more u # map Yield items"
  by (simp add: page_run_def)

lemma page_reads:
  assumes "items_of res = Some items"
  shows "py_get res K = Inr (continuation_of K res)"
    and "py_getitem res ''value'' = Inr (PList items)"
  using assms by (cases res; simp split: option.splits pyval.splits)+

lemma while_next_url_serves:
  "serves list_more K next_url pages \<Longrightarrow>
   while_next_url list_more K next_url run = Some (run @ concat (map page_run pages), None)"
proof (induction pages arbitrary: next_url run)
  case Nil
  then show ?case
    by (subst while_next_url.simps) simp
next
  case (Cons p pages)
  obtain u items where p: "p = (u, items)" by (cases p)
  from Cons.prems p obtain res st where
    u: "u = next_url" and t: "truthy next_url" and m: "list_more next_url = Inr (res, st)"
    and i: "items_of res = Some items"
    and s: "serves list_more K (continuation_of K res) pages"
    by (auto split: sum.splits)
  show ?case
    by (subst while_next_url.simps)
       (simp add: t m page_reads [OF i] Cons.IH [OF s] p u page_run_pair)
qed

lemma yielded_append: "yielded (xs @ ys) = yielded xs @ yielded ys"
  by (induction xs rule: yielded.induct) simp_all

lemma yielded_map_Yield: "yielded (map Yield items) = items"
  by (induction items) simp_all

lemma yielded_pages: "yielded (concat (map page_run pages)) = concat (map snd pages)"
  by (induction pages) (simp_all add: page_run_def yielded_append yielded_map_Yield)

text \<open>
  C2. When the first fetch returns a page and the fetcher of further pages serves a
  finite chain of pages from its continuation, the last page having no continuation,
  the run of \<^verbatim>\<open>list_all_users\<close> (and of \<^verbatim>\<open>list_all_user_mails\<close>) terminates without an
  exception and is: the first fetch, the items of the first page in order, then for
  each further page in turn the fetch by its continuation URL followed by its items in
  order. So every fetch comes after all items of the page before it, and the items
  handed over are those of all pages in page and item order.
\<close>

theorem list_all_users_pages:
  assumes "list_users_bulk = Inr (res, st)" and "items_of res = Some items"
    and "serves list_more NEXT_KEY (continuation_of NEXT_KEY res) pages"
  shows "list_all_users list_users_bulk list_more NEXT_KEY
           = Some (Fetch_bulk # map Yield items @ concat (map page_run pages), None)
       \<and> list_all_user_mails (\<lambda>user_id. list_users_bulk) list_more NEXT_KEY user
           = Some (Fetch_bulk # map Yield items @ concat (map page_run pages), None)
       \<and> yielded (Fetch_bulk # map Yield items @ concat (map page_run pages))
           = items @ concat (map snd pages)"
  using assms
  by (simp add: list_all_users_def list_all_user_mails_def page_reads
      while_next_url_serves yielded_append yielded_map_Yield yielded_pages)

theorem list_all_users_pages_witness:
  "list_all_users example_bulk example_more ''@odata.nextLink''
     = Some ([Fetch_bulk, Yield (PInt 1), Yield (PInt 2),
              Fetch_more (PStr ''page2''), Yield (PInt 3), Yield (PInt 4),
              Fetch_more (PStr ''page3''), Yield (PInt 5), Yield (PInt 6)], None)
   \<and> yielded [Fetch_bulk, Yield (PInt 1), Yield (PInt 2),
              Fetch_more (PStr ''page2''), Yield (PInt 3), Yield (PInt 4),
              Fetch_more (PStr ''page3''), Yield (PInt 5), Yield (PInt 6)]
     = [PInt 1, PInt 2, PInt 3, PInt 4, PInt 5, PInt 6]"
  using list_all_users_pages [of example_bulk
      "PDict [(''value'', PList [PInt 1, PInt 2]), (''@odata.nextLink'', PStr ''page2'')]" 200
      "[PInt 1, PInt 2]" example_more "''@odata.nextLink''"
      "[(PStr ''page2'', [PInt 3, PInt 4]), (PStr ''page3'', [PInt 5, PInt 6])]" "()"]
  by (simp add: example_bulk_def example_more_def page_run_pair)

end
